theory Spec2Isabelle
  imports Complex_Main "HOL-Library.Sublist"
begin

section \<open>The derived-metrics engine of the GenAI Security Maturity Explorer\<close>

text \<open>
  A shallow embedding of the computations of \<^verbatim>\<open>src/app.py\<close>: the constant score tables,
  \<^verbatim>\<open>get_level_description\<close>, \<^verbatim>\<open>get_maturity_data\<close>, and the data parts of
  \<^verbatim>\<open>create_heatmap\<close>, \<^verbatim>\<open>create_gap_analysis_chart\<close>, \<^verbatim>\<open>create_radar_chart\<close> and
  \<^verbatim>\<open>update_charts\<close>.

  Conventions of the model.
  \<^item> A Python float that is stored in a table is a \<^typ>\<open>real\<close>: every literal of the tables and
    every threshold is finite, and rounding is not modelled.
  \<^item> A float that is computed by \<^verbatim>\<open>np.mean\<close> may be \<^verbatim>\<open>nan\<close> (the mean of an empty
    list); such values are \<^typ>\<open>real option\<close>, with \<open>None\<close> for \<^verbatim>\<open>nan\<close>.
  \<^item> Python lists are mutable objects. The score rows live in an explicit heap, a list of
    list objects addressed by position; a dictionary maps a category to the address of its
    row. \<^verbatim>\<open>.copy()\<close> allocates a new object, an index assignment writes to the object at
    an address.
  \<^item> Exceptions are values: every operation returns \<open>Inl e\<close> or \<open>Inr v\<close> together with the
    heap it leaves behind.
  \<^item> Layout, colours of the page, the \<^verbatim>\<open>dark_mode\<close> flag, the evidence texts of
    \<^verbatim>\<open>CELL_DETAILS\<close> and the formatting of numbers as strings are presentation only and are
    left out; a figure is the record of the data it is built from.
\<close>

subsection \<open>Errors, heap, and the error-and-state discipline\<close>

datatype py_error = KeyError string | IndexError | BadAddress

type_synonym addr = nat
type_synonym heap = "real list list"
type_synonym py_dict = "(string \<times> addr) list"
type_synonym pyfloat = "real option"
type_synonym 'a py = "heap \<Rightarrow> (py_error + 'a) \<times> heap"

definition ret :: "'a \<Rightarrow> 'a py" where
  "ret x h = (Inr x, h)"

definition raise :: "py_error \<Rightarrow> 'a py" where
  "raise e h = (Inl e, h)"

definition bind :: "'a py \<Rightarrow> ('a \<Rightarrow> 'b py) \<Rightarrow> 'b py" where
  "bind m f h = (case m h of (Inl e, h') \<Rightarrow> (Inl e, h') | (Inr x, h') \<Rightarrow> f x h')"

text \<open>A \<^verbatim>\<open>for\<close> loop (or list comprehension) that collects one result per element.\<close>

fun for_each :: "('a \<Rightarrow> 'b py) \<Rightarrow> 'a list \<Rightarrow> 'b list py" where
  "for_each f [] = ret []"
| "for_each f (x # xs) = bind (f x) (\<lambda>y. bind (for_each f xs) (\<lambda>ys. ret (y # ys)))"

text \<open>\<^verbatim>\<open>d[k]\<close> on a dictionary: \<^verbatim>\<open>KeyError\<close> when the key is missing.\<close>

definition dict_getitem :: "py_dict \<Rightarrow> string \<Rightarrow> addr py" where
  "dict_getitem d k = (case map_of d k of None \<Rightarrow> raise (KeyError k) | Some p \<Rightarrow> ret p)"

text \<open>
  Reading the whole list object at an address. An address outside the heap cannot arise in
  Python; the model reports it as \<open>BadAddress\<close> instead of reading an unspecified value.
\<close>

definition list_read :: "addr \<Rightarrow> real list py" where
  "list_read p h = (if p < length h then (Inr (h ! p), h) else (Inl BadAddress, h))"

text \<open>\<^verbatim>\<open>xs.copy()\<close>: a new list object with the same elements; the result is its address.\<close>

definition list_copy :: "addr \<Rightarrow> addr py" where
  "list_copy p h = (if p < length h then (Inr (length h), h @ [h ! p]) else (Inl BadAddress, h))"

text \<open>\<^verbatim>\<open>xs[i]\<close> for a non-negative index: \<^verbatim>\<open>IndexError\<close> out of range.\<close>

definition list_getitem :: "addr \<Rightarrow> nat \<Rightarrow> real py" where
  "list_getitem p i h =
     (if p < length h
      then (if i < length (h ! p) then (Inr (h ! p ! i), h) else (Inl IndexError, h))
      else (Inl BadAddress, h))"

text \<open>\<^verbatim>\<open>xs[i] = v\<close> for a non-negative index: writes into the object at the address.\<close>

definition list_setitem :: "addr \<Rightarrow> nat \<Rightarrow> real \<Rightarrow> unit py" where
  "list_setitem p i v h =
     (if p < length h
      then (if i < length (h ! p) then (Inr (), h[p := (h ! p)[i := v]]) else (Inl IndexError, h))
      else (Inl BadAddress, h))"

subsection \<open>The constant tables\<close>

definition THREAT_CATEGORIES :: "string list" where
  "THREAT_CATEGORIES =
     [''Prompt Injection'', ''Autonomy Harms'', ''Political Integrity'', ''Privacy'']"

definition DIMENSIONS :: "string list" where
  "DIMENSIONS =
     [''Threat Maturity'', ''Technical Controls'', ''Governance Enforcement'',
      ''Stakeholder Protections'']"

text \<open>The three dictionary literals, as written in the source.\<close>

definition LITERAL_2025 :: "(string \<times> real list) list" where
  "LITERAL_2025 =
     [(''Prompt Injection'', [4.0, 2.5, 2.0, 0.5]),
      (''Autonomy Harms'', [4.0, 2.0, 2.0, 0.5]),
      (''Political Integrity'', [4.0, 1.0, 0.5, 0.5]),
      (''Privacy'', [4.0, 2.0, 2.0, 2.0])]"

definition LITERAL_2026 :: "(string \<times> real list) list" where
  "LITERAL_2026 =
     [(''Prompt Injection'', [4.0, 3.0, 2.5, 1.0]),
      (''Autonomy Harms'', [4.0, 2.5, 2.5, 1.0]),
      (''Political Integrity'', [4.0, 2.0, 1.5, 1.0]),
      (''Privacy'', [4.0, 2.5, 2.5, 2.5])]"

definition LITERAL_2027 :: "(string \<times> real list) list" where
  "LITERAL_2027 =
     [(''Prompt Injection'', [4.0, 3.5, 3.0, 2.0]),
      (''Autonomy Harms'', [4.0, 3.0, 3.0, 1.5]),
      (''Political Integrity'', [4.0, 2.5, 2.5, 1.5]),
      (''Privacy'', [4.0, 3.0, 3.0, 3.0])]"

text \<open>
  Loading the module evaluates the three literals in order: each row becomes a list object
  in the heap, and each dictionary maps its keys to the addresses of its rows.
\<close>

definition initial_heap :: heap where
  "initial_heap = map snd (LITERAL_2025 @ LITERAL_2026 @ LITERAL_2027)"

definition alloc_dict :: "nat \<Rightarrow> (string \<times> real list) list \<Rightarrow> py_dict" where
  "alloc_dict base kvs = zip (map fst kvs) [base ..< base + length kvs]"

definition MATURITY_DATA_2025 :: py_dict where
  "MATURITY_DATA_2025 = alloc_dict 0 LITERAL_2025"

definition MATURITY_DATA_2026 :: py_dict where
  "MATURITY_DATA_2026 = alloc_dict 4 LITERAL_2026"

definition MATURITY_DATA_2027 :: py_dict where
  "MATURITY_DATA_2027 = alloc_dict 8 LITERAL_2027"

subsection \<open>Helper functions of the source\<close>

definition get_level_description :: "real \<Rightarrow> string" where
  "get_level_description level =
     (if level < 0.5 then ''Non-existent''
      else if level < 1.5 then ''Initial/Ad-hoc''
      else if level < 2.5 then ''Developing''
      else if level < 3.5 then ''Defined''
      else ''Managed/Mature'')"

definition get_maturity_data :: "string \<Rightarrow> py_dict" where
  "get_maturity_data year =
     (if year = ''2025'' then MATURITY_DATA_2025
      else if year = ''2026'' then MATURITY_DATA_2026
      else if year = ''2027'' then MATURITY_DATA_2027
      else MATURITY_DATA_2025)"

text \<open>\<^verbatim>\<open>np.mean\<close> of a list of floats; the mean of no values is \<^verbatim>\<open>nan\<close>.\<close>

definition np_mean :: "real list \<Rightarrow> pyfloat" where
  "np_mean xs = (if xs = [] then None else Some (sum_list xs / real (length xs)))"

text \<open>Subtraction and comparison with \<^verbatim>\<open>nan\<close>: the difference is \<^verbatim>\<open>nan\<close>, the test is false.\<close>

definition py_sub :: "pyfloat \<Rightarrow> pyfloat \<Rightarrow> pyfloat" where
  "py_sub x y = (case (x, y) of (Some a, Some b) \<Rightarrow> Some (a - b) | _ \<Rightarrow> None)"

definition py_gt :: "pyfloat \<Rightarrow> real \<Rightarrow> bool" where
  "py_gt x c = (case x of None \<Rightarrow> False | Some a \<Rightarrow> a > c)"

subsection \<open>\<^verbatim>\<open>create_heatmap\<close>\<close>

text \<open>
  One hover cell: category, dimension, level and the label of the level. The evidence and
  reference texts that the source adds from \<^verbatim>\<open>CELL_DETAILS\<close> are left out.
\<close>

type_synonym hover_cell = "string \<times> string \<times> real \<times> string"

record heatmap_figure =
  heatmap_z :: "real list list"
  heatmap_x :: "string list"
  heatmap_y :: "string list"
  heatmap_customdata :: "hover_cell list list"

text \<open>The two index assignments, guarded by \<^verbatim>\<open>governance_adjustment > 0\<close>.\<close>

definition apply_adjustment :: "int \<Rightarrow> addr \<Rightarrow> unit py" where
  "apply_adjustment governance_adjustment row_values =
     (if governance_adjustment > 0 then
        bind (list_getitem row_values 2) (\<lambda>g.
        bind (list_setitem row_values 2 (min 4.0 (g + of_int governance_adjustment * 0.5))) (\<lambda>_.
        bind (list_getitem row_values 3) (\<lambda>s.
        list_setitem row_values 3 (min 4.0 (s + of_int governance_adjustment * 0.3)))))
      else ret ())"

definition hover_row :: "string \<Rightarrow> addr \<Rightarrow> hover_cell list py" where
  "hover_row category row_values =
     for_each (\<lambda>(i, dim).
        bind (list_getitem row_values i) (\<lambda>level.
        ret (category, dim, level, get_level_description level)))
       (enumerate 0 DIMENSIONS)"

text \<open>The body of the loop over \<^verbatim>\<open>THREAT_CATEGORIES\<close>.\<close>

definition heatmap_body :: "py_dict \<Rightarrow> int \<Rightarrow> string \<Rightarrow> (addr \<times> hover_cell list) py" where
  "heatmap_body data governance_adjustment category =
     bind (dict_getitem data category) (\<lambda>stored.
     bind (list_copy stored) (\<lambda>row_values.
     bind (apply_adjustment governance_adjustment row_values) (\<lambda>_.
     bind (hover_row category row_values) (\<lambda>row_hover.
     ret (row_values, row_hover)))))"

text \<open>
  \<^verbatim>\<open>z_values\<close> holds the row objects; the figure is built from their contents when the
  loop has finished.
\<close>

definition create_heatmap :: "string \<Rightarrow> int \<Rightarrow> heatmap_figure py" where
  "create_heatmap year governance_adjustment =
     (let data = get_maturity_data year in
      bind (for_each (heatmap_body data governance_adjustment) THREAT_CATEGORIES) (\<lambda>rows.
      bind (for_each list_read (map fst rows)) (\<lambda>z_values.
      ret \<lparr>heatmap_z = z_values, heatmap_x = DIMENSIONS, heatmap_y = THREAT_CATEGORIES,
           heatmap_customdata = map snd rows\<rparr>)))"

subsection \<open>\<^verbatim>\<open>create_gap_analysis_chart\<close>\<close>

text \<open>The conditional expression that colours a bar by the size of its gap.\<close>

definition severity_color :: "pyfloat \<Rightarrow> string" where
  "severity_color g =
     (if py_gt g 2.5 then ''#d73027''
      else if py_gt g 2 then ''#fc8d59''
      else if py_gt g 1.5 then ''#fee08b''
      else ''#d9ef8b'')"

record gap_figure =
  categories :: "string list"
  gaps :: "pyfloat list"
  colors :: "string list"
  threat_levels :: "real list"
  protection_levels :: "pyfloat list"

definition gap_body :: "py_dict \<Rightarrow> string \<Rightarrow> (string \<times> pyfloat \<times> real \<times> pyfloat) py" where
  "gap_body data cat =
     bind (dict_getitem data cat) (\<lambda>stored.
     bind (list_getitem stored 0) (\<lambda>threat_level.
     bind (list_read stored) (\<lambda>row.
     (let avg_protection = np_mean (drop 1 row);
          gap = py_sub (Some threat_level) avg_protection
      in ret (cat, gap, threat_level, avg_protection)))))"

definition create_gap_analysis_chart :: "string \<Rightarrow> gap_figure py" where
  "create_gap_analysis_chart year =
     (let data = get_maturity_data year in
      bind (for_each (gap_body data) THREAT_CATEGORIES) (\<lambda>rows.
      ret \<lparr>categories = map fst rows,
           gaps = map (\<lambda>r. fst (snd r)) rows,
           colors = map (\<lambda>r. severity_color (fst (snd r))) rows,
           threat_levels = map (\<lambda>r. fst (snd (snd r))) rows,
           protection_levels = map (\<lambda>r. snd (snd (snd r))) rows\<rparr>))"

subsection \<open>\<^verbatim>\<open>create_radar_chart\<close>\<close>

datatype radar_figure =
  EmptyFigure
| Scatterpolar (radar_r: "real list") (radar_theta: "string list") (radar_name: string)

definition create_radar_chart :: "string \<Rightarrow> string \<Rightarrow> radar_figure py" where
  "create_radar_chart category year =
     (let data = get_maturity_data year in
      if category \<notin> set (map fst data) then ret EmptyFigure
      else
        bind (dict_getitem data category) (\<lambda>stored.
        bind (list_read stored) (\<lambda>values.
        bind (list_getitem stored 0) (\<lambda>first.
        ret (Scatterpolar (values @ [first]) (DIMENSIONS @ [DIMENSIONS ! 0]) category)))))"

subsection \<open>\<^verbatim>\<open>update_charts\<close> and \<^verbatim>\<open>update_radar\<close>\<close>

record statistics =
  avg_threat :: pyfloat
  avg_tech :: pyfloat
  avg_gov :: pyfloat
  avg_stake :: pyfloat
  overall_gap :: pyfloat

text \<open>The comprehension \<^verbatim>\<open>[data[cat][i] for cat in THREAT_CATEGORIES]\<close>.\<close>

definition column :: "py_dict \<Rightarrow> nat \<Rightarrow> real list py" where
  "column data i =
     for_each (\<lambda>cat. bind (dict_getitem data cat) (\<lambda>stored. list_getitem stored i))
       THREAT_CATEGORIES"

definition update_charts :: "string \<Rightarrow> int \<Rightarrow> (heatmap_figure \<times> gap_figure \<times> statistics) py" where
  "update_charts year governance_adj =
     bind (create_heatmap year governance_adj) (\<lambda>heatmap.
     bind (create_gap_analysis_chart year) (\<lambda>gap_chart.
     (let data = get_maturity_data year in
      bind (column data 0) (\<lambda>c0.
      bind (column data 1) (\<lambda>c1.
      bind (column data 2) (\<lambda>c2.
      bind (column data 3) (\<lambda>c3.
      (let t = np_mean c0; s = np_mean c3 in
       ret (heatmap, gap_chart,
            \<lparr>avg_threat = t, avg_tech = np_mean c1, avg_gov = np_mean c2,
             avg_stake = s, overall_gap = py_sub t s\<rparr>)))))))))"

definition update_radar :: "string \<Rightarrow> string \<Rightarrow> radar_figure py" where
  "update_radar category year = create_radar_chart category year"

subsection \<open>Sequences of calls\<close>

text \<open>
  The operations a render can invoke, with their arguments. A call that raises leaves the
  heap as it was when the exception was thrown; the process goes on with that heap.
\<close>

datatype call =
  Heatmap string int
| GapChart string
| RadarChart string string
| UpdateCharts string int
| UpdateRadar string string

fun run_call :: "call \<Rightarrow> heap \<Rightarrow> heap" where
  "run_call (Heatmap year a) h = snd (create_heatmap year a h)"
| "run_call (GapChart year) h = snd (create_gap_analysis_chart year h)"
| "run_call (RadarChart category year) h = snd (create_radar_chart category year h)"
| "run_call (UpdateCharts year a) h = snd (update_charts year a h)"
| "run_call (UpdateRadar category year) h = snd (update_radar category year h)"

fun run_calls :: "call list \<Rightarrow> heap \<Rightarrow> heap" where
  "run_calls [] h = h"
| "run_calls (c # cs) h = run_calls cs (run_call c h)"

subsection \<open>Views of the results, for the statements below\<close>

text \<open>
  The list that one pass of the loop body of \<^verbatim>\<open>create_heatmap\<close> leaves in the copied row:
  the two index assignments, written on the value of the row.
\<close>

definition adjusted_row :: "int \<Rightarrow> real list \<Rightarrow> real list" where
  "adjusted_row a row =
     (if a > 0
      then (row[2 := min 4.0 (row ! 2 + of_int a * 0.5)])
             [3 := min 4.0 (row ! 3 + of_int a * 0.3)]
      else row)"

text \<open>The hover cells that the inner loop over \<^verbatim>\<open>enumerate(DIMENSIONS)\<close> builds from a row.\<close>

definition hover_cells :: "string \<Rightarrow> real list \<Rightarrow> hover_cell list" where
  "hover_cells category row =
     map (\<lambda>(i, dim). (category, dim, row ! i, get_level_description (row ! i)))
       (enumerate 0 DIMENSIONS)"

text \<open>
  The base (un-adjusted) row of a category in the table that \<^verbatim>\<open>get_maturity_data\<close> selects,
  as the module stores it when it is loaded, and the base matrix of a year.
\<close>

definition base_row :: "string \<Rightarrow> string \<Rightarrow> real list" where
  "base_row year category =
     (case map_of (get_maturity_data year) category of
        Some p \<Rightarrow> initial_heap ! p
      | None \<Rightarrow> [])"

definition base_matrix :: "string \<Rightarrow> (string \<times> real list) list" where
  "base_matrix year = map (\<lambda>c. (c, base_row year c)) THREAT_CATEGORIES"

text \<open>The contents of a table in a heap: every key with the list its address holds.\<close>

definition table_contents :: "py_dict \<Rightarrow> heap \<Rightarrow> (string \<times> real list) list" where
  "table_contents d h = map (\<lambda>kp. (fst kp, h ! snd kp)) d"

text \<open>
  In heap \<open>h\<close> the dictionary \<open>data\<close> holds for category \<open>c\<close> a row of four scores with the
  value \<open>row c\<close>.
\<close>

definition stored_at :: "py_dict \<Rightarrow> heap \<Rightarrow> (string \<Rightarrow> real list) \<Rightarrow> string \<Rightarrow> bool" where
  "stored_at data h row c =
     (\<exists>p. map_of data c = Some p \<and> p < length h \<and> h ! p = row c \<and> length (row c) = 4)"

text \<open>A computation only allocates: the heap it starts from is an initial segment of its result.\<close>

definition grows :: "'a py \<Rightarrow> bool" where
  "grows m = (\<forall>h. prefix h (snd (m h)))"

definition supported_years :: "string set" where
  "supported_years = {''2025'', ''2026'', ''2027''}"

text \<open>
  The operations under the names the specification gives them, as projections of what the
  source functions return. \<open>adjustedMatrix\<close> is the \<^verbatim>\<open>z\<close> matrix of the heatmap, keyed by its
  \<^verbatim>\<open>y\<close> labels; \<open>protectionGap\<close> is the bar of a category in the gap chart;
  \<open>summaryStatistics\<close> is the third result of \<^verbatim>\<open>update_charts\<close>.
\<close>

definition adjustedMatrix :: "string \<Rightarrow> int \<Rightarrow> heap \<Rightarrow> py_error + (string \<times> real list) list" where
  "adjustedMatrix year adjustment h =
     (case fst (create_heatmap year adjustment h) of
        Inl e \<Rightarrow> Inl e
      | Inr fig \<Rightarrow> Inr (zip (heatmap_y fig) (heatmap_z fig)))"

definition score_of :: "py_error + (string \<times> real list) list \<Rightarrow> string \<Rightarrow> nat \<Rightarrow> real option" where
  "score_of m category i =
     (case m of
        Inl e \<Rightarrow> None
      | Inr rows \<Rightarrow>
          (case map_of rows category of
             None \<Rightarrow> None
           | Some row \<Rightarrow> if i < length row then Some (row ! i) else None))"

definition protectionGap :: "string \<Rightarrow> string \<Rightarrow> heap \<Rightarrow> pyfloat option" where
  "protectionGap category year h =
     (case fst (create_gap_analysis_chart year h) of
        Inl e \<Rightarrow> None
      | Inr fig \<Rightarrow> map_of (zip (categories fig) (gaps fig)) category)"

definition summaryStatistics :: "string \<Rightarrow> int \<Rightarrow> heap \<Rightarrow> py_error + statistics" where
  "summaryStatistics year adjustment h =
     (case fst (update_charts year adjustment h) of
        Inl e \<Rightarrow> Inl e
      | Inr res \<Rightarrow> Inr (snd (snd res)))"

text \<open>
  Following the words of the specification: the column means of a matrix over all its
  categories, with \<open>overallGap = avgThreat - avgStakeholder\<close>.
\<close>

definition column_means :: "(string \<times> real list) list \<Rightarrow> statistics" where
  "column_means m =
     \<lparr>avg_threat = np_mean (map (\<lambda>cr. snd cr ! 0) m),
      avg_tech = np_mean (map (\<lambda>cr. snd cr ! 1) m),
      avg_gov = np_mean (map (\<lambda>cr. snd cr ! 2) m),
      avg_stake = np_mean (map (\<lambda>cr. snd cr ! 3) m),
      overall_gap = py_sub (np_mean (map (\<lambda>cr. snd cr ! 0) m))
                           (np_mean (map (\<lambda>cr. snd cr ! 3) m))\<rparr>"

text \<open>
  The five numbers that \<^verbatim>\<open>update_charts\<close> computes from the columns of a table whose rows
  are given by \<open>row\<close>.
\<close>

definition column_stats :: "(string \<Rightarrow> real list) \<Rightarrow> statistics" where
  "column_stats row =
     \<lparr>avg_threat = np_mean (map (\<lambda>c. row c ! 0) THREAT_CATEGORIES),
      avg_tech = np_mean (map (\<lambda>c. row c ! 1) THREAT_CATEGORIES),
      avg_gov = np_mean (map (\<lambda>c. row c ! 2) THREAT_CATEGORIES),
      avg_stake = np_mean (map (\<lambda>c. row c ! 3) THREAT_CATEGORIES),
      overall_gap = py_sub (np_mean (map (\<lambda>c. row c ! 0) THREAT_CATEGORIES))
                           (np_mean (map (\<lambda>c. row c ! 3) THREAT_CATEGORIES))\<rparr>"

section \<open>Properties\<close>

subsection \<open>The monad, the heap and the loops\<close>

lemma bind_ret [simp]: "bind (ret v) f h = f v h"
  by (simp add: bind_def ret_def)

lemma bind_raise [simp]: "bind (raise e) f h = (Inl e, h)"
  by (simp add: bind_def raise_def)

lemma bind_Inr: "m h = (Inr v, h') \<Longrightarrow> bind m f h = f v h'"
  by (simp add: bind_def)

lemma bind_Inl: "m h = (Inl e, h') \<Longrightarrow> bind m f h = (Inl e, h')"
  by (simp add: bind_def)

lemma growsI: "(\<And>h. prefix h (snd (m h))) \<Longrightarrow> grows m"
  by (simp add: grows_def)

lemma growsD: "grows m \<Longrightarrow> prefix h (snd (m h))"
  by (simp add: grows_def)

lemma grows_ret: "grows (ret v)"
  by (simp add: grows_def ret_def)

lemma grows_raise: "grows (raise e)"
  by (simp add: grows_def raise_def)

lemma grows_bind:
  assumes "grows m" and "\<And>v. grows (f v)"
  shows "grows (bind m f)"
proof (rule growsI)
  fix h
  obtain res h1 where mh: "m h = (res, h1)" by (cases "m h")
  have p1: "prefix h h1" using growsD [OF assms(1), of h] mh by simp
  show "prefix h (snd (bind m f h))"
  proof (cases res)
    case (Inl e)
    then show ?thesis using mh p1 by (simp add: bind_def)
  next
    case (Inr v)
    have "prefix h1 (snd (f v h1))" using growsD [OF assms(2)] .
    then show ?thesis using mh p1 Inr by (auto simp: bind_def)
  qed
qed

lemma grows_for_each:
  assumes "\<And>v. grows (f v)"
  shows "grows (for_each f xs)"
  by (induction xs) (auto intro!: grows_ret grows_bind assms)

lemma grows_dict_getitem: "grows (dict_getitem d k)"
  by (simp add: dict_getitem_def grows_ret grows_raise split: option.splits)

lemma grows_list_read: "grows (list_read p)"
  by (simp add: grows_def list_read_def)

lemma grows_list_getitem: "grows (list_getitem p i)"
  by (simp add: grows_def list_getitem_def)

lemma grows_list_copy: "grows (list_copy p)"
  by (simp add: grows_def list_copy_def)

lemma list_getitem_fresh:
  "i < length r \<Longrightarrow> list_getitem (length h) i (h @ [r]) = (Inr (r ! i), h @ [r])"
  by (simp add: list_getitem_def)

lemma list_setitem_fresh:
  "i < length r \<Longrightarrow> list_setitem (length h) i v (h @ [r]) = (Inr (), h @ [r[i := v]])"
  by (simp add: list_setitem_def)

lemma list_getitem_fresh_error:
  "\<not> i < length r \<Longrightarrow> list_getitem (length h) i (h @ [r]) = (Inl IndexError, h @ [r])"
  by (simp add: list_getitem_def)

lemma apply_adjustment_fresh:
  assumes "length r = 4"
  shows "apply_adjustment a (length h) (h @ [r]) = (Inr (), h @ [adjusted_row a r])"
proof (cases "a > 0")
  case True
  then show ?thesis
    using assms
    by (simp add: apply_adjustment_def adjusted_row_def bind_def
        list_getitem_fresh list_setitem_fresh)
next
  case False
  then show ?thesis by (simp add: apply_adjustment_def adjusted_row_def ret_def)
qed

lemma apply_adjustment_fresh_heap:
  "\<exists>r'. snd (apply_adjustment a (length h) (h @ [r])) = h @ [r']"
proof (cases "a > 0")
  case False
  then show ?thesis by (simp add: apply_adjustment_def ret_def)
next
  case True
  show ?thesis
  proof (cases "2 < length r")
    case False
    then show ?thesis using True
      by (simp add: apply_adjustment_def bind_def list_getitem_fresh_error)
  next
    case two: True
    show ?thesis
    proof (cases "3 < length r")
      case False
      then show ?thesis using True two
        by (simp add: apply_adjustment_def bind_def list_getitem_fresh list_setitem_fresh
            list_getitem_fresh_error)
    next
      case three: True
      then show ?thesis using True two
        by (simp add: apply_adjustment_def bind_def list_getitem_fresh list_setitem_fresh)
    qed
  qed
qed

lemma hover_row_fresh:
  assumes "length r = 4"
  shows "hover_row c (length h) (h @ [r]) = (Inr (hover_cells c r), h @ [r])"
  using assms
  by (simp add: hover_row_def hover_cells_def DIMENSIONS_def enumerate_eq_zip upt_rec
      bind_def list_getitem_fresh ret_def)

lemma grows_hover_row: "grows (hover_row c q)"
  unfolding hover_row_def
  by (intro grows_for_each) (auto intro!: grows_bind grows_ret grows_list_getitem)

lemma heatmap_body_fresh:
  assumes "map_of data c = Some p" and "p < length h" and "length (h ! p) = 4"
  shows "heatmap_body data a c h =
           (Inr (length h, hover_cells c (adjusted_row a (h ! p))),
            h @ [adjusted_row a (h ! p)])"
proof -
  have len: "length (adjusted_row a (h ! p)) = 4"
    using assms(3) by (simp add: adjusted_row_def)
  show ?thesis
    using assms
    by (simp add: heatmap_body_def dict_getitem_def bind_def ret_def list_copy_def
        apply_adjustment_fresh hover_row_fresh [OF len])
qed

lemma grows_heatmap_body: "grows (heatmap_body data a c)"
proof (rule growsI)
  fix h
  show "prefix h (snd (heatmap_body data a c h))"
  proof (cases "map_of data c")
    case None
    then show ?thesis by (simp add: heatmap_body_def dict_getitem_def)
  next
    case (Some p)
    show ?thesis
    proof (cases "p < length h")
      case False
      then show ?thesis using Some
        by (simp add: heatmap_body_def dict_getitem_def list_copy_def bind_def ret_def)
    next
      case True
      obtain r' where r': "snd (apply_adjustment a (length h) (h @ [h ! p])) = h @ [r']"
        using apply_adjustment_fresh_heap by blast
      obtain res where ap: "apply_adjustment a (length h) (h @ [h ! p]) = (res, h @ [r'])"
        using r' by (cases "apply_adjustment a (length h) (h @ [h ! p])") simp
      have hv: "prefix (h @ [r']) (snd (hover_row c (length h) (h @ [r'])))"
        using growsD [OF grows_hover_row] .
      have "prefix h (h @ [r'])" by simp
      with hv have hv': "prefix h (snd (hover_row c (length h) (h @ [r'])))"
        using prefix_order.trans by blast
      show ?thesis
        using Some True ap hv'
        by (cases res)
           (auto simp: heatmap_body_def dict_getitem_def list_copy_def bind_def ret_def
                 split: prod.splits sum.splits)
    qed
  qed
qed

lemma stored_at_append: "stored_at data h row c \<Longrightarrow> stored_at data (h @ ext) row c"
  by (auto simp: stored_at_def nth_append)

lemma heatmap_body_stored:
  assumes "stored_at data h row c"
  shows "heatmap_body data a c h =
           (Inr (length h, hover_cells c (adjusted_row a (row c))),
            h @ [adjusted_row a (row c)])"
proof -
  from assms obtain p where p: "map_of data c = Some p" "p < length h" "h ! p = row c"
    "length (row c) = 4"
    by (auto simp: stored_at_def)
  have "length (h ! p) = 4" using p by simp
  from heatmap_body_fresh [OF p(1) p(2) this, of a] show ?thesis using p(3) by simp
qed

lemma for_each_heatmap_body:
  assumes "\<forall>c \<in> set cs. stored_at data h row c"
  shows "for_each (heatmap_body data a) cs h =
           (Inr (zip [length h ..< length h + length cs]
                     (map (\<lambda>c. hover_cells c (adjusted_row a (row c))) cs)),
            h @ map (\<lambda>c. adjusted_row a (row c)) cs)"
  using assms
proof (induction cs arbitrary: h)
  case Nil
  then show ?case by (simp add: ret_def)
next
  case (Cons c cs)
  let ?h1 = "h @ [adjusted_row a (row c)]"
  have b: "heatmap_body data a c h =
             (Inr (length h, hover_cells c (adjusted_row a (row c))), ?h1)"
    using Cons.prems by (simp add: heatmap_body_stored)
  have "\<forall>c' \<in> set cs. stored_at data ?h1 row c'"
    using Cons.prems by (simp add: stored_at_append)
  from Cons.IH [OF this]
  have r: "for_each (heatmap_body data a) cs ?h1 =
           (Inr (zip [Suc (length h) ..< Suc (length h) + length cs]
                     (map (\<lambda>c. hover_cells c (adjusted_row a (row c))) cs)),
            ?h1 @ map (\<lambda>c. adjusted_row a (row c)) cs)"
    by simp
  have u: "[length h ..< length h + length (c # cs)] =
           length h # [Suc (length h) ..< Suc (length h) + length cs]"
  proof -
    have "[length h ..< length h + Suc (length cs)] =
          length h # [Suc (length h) ..< length h + Suc (length cs)]"
      by (rule upt_conv_Cons) simp
    then show ?thesis by simp
  qed
  show ?case
    unfolding u by (simp add: bind_def b r ret_def)
qed

lemma for_each_list_read:
  assumes "\<forall>p \<in> set ps. p < length h"
  shows "for_each list_read ps h = (Inr (map ((!) h) ps), h)"
  using assms
  by (induction ps) (simp_all add: ret_def bind_def list_read_def)

lemma read_fresh_rows:
  "for_each list_read [length h ..< length h + length rs] (h @ rs) = (Inr rs, h @ rs)"
proof -
  have "map ((!) (h @ rs)) [length h ..< length h + length rs] = rs"
    by (rule nth_equalityI) (simp_all add: nth_append)
  then show ?thesis
    by (simp add: for_each_list_read)
qed

lemma create_heatmap_stored:
  assumes "\<forall>c \<in> set THREAT_CATEGORIES. stored_at (get_maturity_data year) h row c"
  shows "create_heatmap year a h =
           (Inr \<lparr>heatmap_z = map (\<lambda>c. adjusted_row a (row c)) THREAT_CATEGORIES,
                 heatmap_x = DIMENSIONS, heatmap_y = THREAT_CATEGORIES,
                 heatmap_customdata =
                   map (\<lambda>c. hover_cells c (adjusted_row a (row c))) THREAT_CATEGORIES\<rparr>,
            h @ map (\<lambda>c. adjusted_row a (row c)) THREAT_CATEGORIES)"
proof -
  let ?rs = "map (\<lambda>c. adjusted_row a (row c)) THREAT_CATEGORIES"
  have len: "length THREAT_CATEGORIES = length ?rs" by simp
  have rd: "for_each list_read [length h ..< length h + length THREAT_CATEGORIES] (h @ ?rs)
          = (Inr ?rs, h @ ?rs)"
    unfolding len by (rule read_fresh_rows)
  show ?thesis
    by (simp add: create_heatmap_def Let_def bind_def for_each_heatmap_body [OF assms] rd
        ret_def)
qed

lemma prefix_nth: "prefix g h \<Longrightarrow> p < length g \<Longrightarrow> h ! p = g ! p"
  by (auto simp: prefix_def nth_append)

lemma length_initial_heap: "length initial_heap = 12"
  by (simp add: initial_heap_def LITERAL_2025_def LITERAL_2026_def LITERAL_2027_def)

lemma data_keys:
  "map fst (get_maturity_data year) = THREAT_CATEGORIES"
  by (simp add: get_maturity_data_def MATURITY_DATA_2025_def MATURITY_DATA_2026_def
      MATURITY_DATA_2027_def alloc_dict_def LITERAL_2025_def LITERAL_2026_def
      LITERAL_2027_def THREAT_CATEGORIES_def upt_rec)

lemma data_addresses:
  "set (map snd (get_maturity_data year)) \<subseteq> {..<12}"
  by (simp add: get_maturity_data_def MATURITY_DATA_2025_def MATURITY_DATA_2026_def
      MATURITY_DATA_2027_def alloc_dict_def LITERAL_2025_def LITERAL_2026_def
      LITERAL_2027_def upt_rec)

lemma initial_rows_length: "\<forall>row \<in> set initial_heap. length row = 4"
  by (simp add: initial_heap_def LITERAL_2025_def LITERAL_2026_def LITERAL_2027_def)

lemma stored_base_row:
  assumes "prefix initial_heap h" and "c \<in> set THREAT_CATEGORIES"
  shows "stored_at (get_maturity_data year) h (base_row year) c"
proof -
  from assms(2) have "c \<in> fst ` set (get_maturity_data year)"
    using data_keys [of year] by (metis set_map)
  then obtain p where p: "map_of (get_maturity_data year) c = Some p"
    by (metis domD dom_map_of_conv_image_fst)
  then have "(c, p) \<in> set (get_maturity_data year)" by (rule map_of_SomeD)
  then have "p \<in> set (map snd (get_maturity_data year))" by force
  then have p12: "p < 12" using data_addresses [of year] by auto
  then have pi: "p < length initial_heap" by (simp add: length_initial_heap)
  have pl: "p < length h" using assms(1) pi by (meson less_le_trans prefix_length_le)
  have hp: "h ! p = initial_heap ! p" using assms(1) pi by (rule prefix_nth)
  have "initial_heap ! p \<in> set initial_heap" using pi by simp
  then have l4: "length (initial_heap ! p) = 4" using initial_rows_length by blast
  show ?thesis
    using p pl hp l4 by (simp add: stored_at_def base_row_def)
qed

lemma create_heatmap_reachable:
  assumes "prefix initial_heap h"
  shows "create_heatmap year a h =
           (Inr \<lparr>heatmap_z = map (\<lambda>c. adjusted_row a (base_row year c)) THREAT_CATEGORIES,
                 heatmap_x = DIMENSIONS, heatmap_y = THREAT_CATEGORIES,
                 heatmap_customdata =
                   map (\<lambda>c. hover_cells c (adjusted_row a (base_row year c)))
                     THREAT_CATEGORIES\<rparr>,
            h @ map (\<lambda>c. adjusted_row a (base_row year c)) THREAT_CATEGORIES)"
  by (rule create_heatmap_stored) (simp add: stored_base_row [OF assms])

lemma base_matrix_2025: "base_matrix ''2025'' = LITERAL_2025"
  by (simp add: base_matrix_def base_row_def get_maturity_data_def MATURITY_DATA_2025_def
      alloc_dict_def LITERAL_2025_def LITERAL_2026_def LITERAL_2027_def initial_heap_def
      THREAT_CATEGORIES_def upt_rec)

lemma base_matrix_2026: "base_matrix ''2026'' = LITERAL_2026"
  by (simp add: base_matrix_def base_row_def get_maturity_data_def MATURITY_DATA_2026_def
      alloc_dict_def LITERAL_2025_def LITERAL_2026_def LITERAL_2027_def initial_heap_def
      THREAT_CATEGORIES_def upt_rec)

lemma base_matrix_2027: "base_matrix ''2027'' = LITERAL_2027"
  by (simp add: base_matrix_def base_row_def get_maturity_data_def MATURITY_DATA_2027_def
      alloc_dict_def LITERAL_2025_def LITERAL_2026_def LITERAL_2027_def initial_heap_def
      THREAT_CATEGORIES_def upt_rec)

lemma get_maturity_data_default:
  "year \<notin> {''2025'', ''2026'', ''2027''} \<Longrightarrow> get_maturity_data year = MATURITY_DATA_2025"
  by (simp add: get_maturity_data_def)

lemma get_maturity_data_cases:
  "get_maturity_data year = get_maturity_data ''2025'' \<or>
   get_maturity_data year = get_maturity_data ''2026'' \<or>
   get_maturity_data year = get_maturity_data ''2027''"
  by (simp add: get_maturity_data_def)

lemma base_matrix_cases:
  "base_matrix year = LITERAL_2025 \<or> base_matrix year = LITERAL_2026 \<or>
   base_matrix year = LITERAL_2027"
proof -
  have "base_matrix year = base_matrix ''2025'' \<or> base_matrix year = base_matrix ''2026'' \<or>
        base_matrix year = base_matrix ''2027''"
    using get_maturity_data_cases [of year]
    by (auto simp: base_matrix_def base_row_def)
  then show ?thesis
    by (simp add: base_matrix_2025 base_matrix_2026 base_matrix_2027)
qed

lemma base_row_in_matrix:
  "c \<in> set THREAT_CATEGORIES \<Longrightarrow> (c, base_row year c) \<in> set (base_matrix year)"
  by (auto simp: base_matrix_def)

lemma literal_rows_bounded:
  assumes "m = LITERAL_2025 \<or> m = LITERAL_2026 \<or> m = LITERAL_2027" and "(c, row) \<in> set m"
  shows "length row = 4 \<and> (\<forall>i < 4. 0 \<le> row ! i \<and> row ! i \<le> 4)"
proof -
  have *: "\<And>P. (\<forall>i<4::nat. P i) = (P 0 \<and> P 1 \<and> P 2 \<and> P 3)"
    by (auto simp: less_Suc_eq numeral_eq_Suc)
  show ?thesis
    using assms unfolding *
    by (auto simp: LITERAL_2025_def LITERAL_2026_def LITERAL_2027_def)
qed

lemma base_row_bounded:
  assumes "c \<in> set THREAT_CATEGORIES"
  shows "length (base_row year c) = 4 \<and>
         (\<forall>i < 4. 0 \<le> base_row year c ! i \<and> base_row year c ! i \<le> 4)"
  using literal_rows_bounded [OF base_matrix_cases base_row_in_matrix [OF assms]] .

lemma row4: "length row = 4 \<Longrightarrow> row = [row ! 0, row ! 1, row ! 2, row ! 3]"
  by (rule nth_equalityI) (auto simp: less_Suc_eq numeral_eq_Suc)

lemma adjusted_row_explicit:
  assumes "length row = 4" and "a > 0"
  shows "adjusted_row a row =
           [row ! 0, row ! 1, min 4 (row ! 2 + of_int a * 0.5), min 4 (row ! 3 + of_int a * 0.3)]"
proof -
  obtain t k g s where r: "row = [t, k, g, s]" using row4 [OF assms(1)] by blast
  show ?thesis using assms(2) unfolding r by (simp add: adjusted_row_def)
qed

lemma adjusted_row_zero: "adjusted_row 0 row = row"
  by (simp add: adjusted_row_def)

lemma length_adjusted_row: "length (adjusted_row a row) = length row"
  by (simp add: adjusted_row_def)

lemma adjusted_row_formula:
  assumes "length row = 4" and "0 \<le> a" and "row ! 2 \<le> 4" and "row ! 3 \<le> 4"
  shows "adjusted_row a row =
           [row ! 0, row ! 1, min 4 (row ! 2 + of_int a * 0.5), min 4 (row ! 3 + of_int a * 0.3)]"
proof (cases "a > 0")
  case True
  then show ?thesis using assms(1) by (rule adjusted_row_explicit [rotated])
next
  case False
  then have "a = 0" using assms(2) by simp
  then show ?thesis
    using row4 [OF assms(1)] assms(3,4) by (simp add: adjusted_row_zero)
qed

lemma gap_body_stored:
  assumes "stored_at data h row c"
  shows "gap_body data c h =
           (Inr (c, py_sub (Some (row c ! 0)) (np_mean (drop 1 (row c))), row c ! 0,
                 np_mean (drop 1 (row c))), h)"
  using assms
  by (auto simp: stored_at_def gap_body_def bind_def dict_getitem_def ret_def
      list_getitem_def list_read_def Let_def)

lemma for_each_readonly:
  assumes "\<forall>c \<in> set cs. f c h = (Inr (g c), h)"
  shows "for_each f cs h = (Inr (map g cs), h)"
  using assms by (induction cs) (simp_all add: ret_def bind_def)

lemma create_gap_stored:
  assumes "\<forall>c \<in> set THREAT_CATEGORIES. stored_at (get_maturity_data year) h row c"
  shows "create_gap_analysis_chart year h =
    (Inr \<lparr>categories = THREAT_CATEGORIES,
          gaps = map (\<lambda>c. py_sub (Some (row c ! 0)) (np_mean (drop 1 (row c))))
                   THREAT_CATEGORIES,
          colors = map (\<lambda>c. severity_color
                     (py_sub (Some (row c ! 0)) (np_mean (drop 1 (row c))))) THREAT_CATEGORIES,
          threat_levels = map (\<lambda>c. row c ! 0) THREAT_CATEGORIES,
          protection_levels = map (\<lambda>c. np_mean (drop 1 (row c))) THREAT_CATEGORIES\<rparr>, h)"
proof -
  have "\<forall>c \<in> set THREAT_CATEGORIES. gap_body (get_maturity_data year) c h =
          (Inr (c, py_sub (Some (row c ! 0)) (np_mean (drop 1 (row c))), row c ! 0,
                np_mean (drop 1 (row c))), h)"
    using assms gap_body_stored by blast
  then have "for_each (gap_body (get_maturity_data year)) THREAT_CATEGORIES h =
          (Inr (map (\<lambda>c. (c, py_sub (Some (row c ! 0)) (np_mean (drop 1 (row c))), row c ! 0,
                np_mean (drop 1 (row c)))) THREAT_CATEGORIES), h)"
    by (rule for_each_readonly)
  then show ?thesis
    by (simp add: create_gap_analysis_chart_def Let_def bind_def ret_def comp_def)
qed

lemma column_stored:
  assumes "\<forall>c \<in> set THREAT_CATEGORIES. stored_at data h row c" and "i < 4"
  shows "column data i h = (Inr (map (\<lambda>c. row c ! i) THREAT_CATEGORIES), h)"
proof -
  have "\<forall>c \<in> set THREAT_CATEGORIES.
          bind (dict_getitem data c) (\<lambda>stored. list_getitem stored i) h = (Inr (row c ! i), h)"
    using assms
    by (auto simp: stored_at_def bind_def dict_getitem_def ret_def list_getitem_def)
  then have "for_each (\<lambda>cat. bind (dict_getitem data cat) (\<lambda>stored. list_getitem stored i))
          THREAT_CATEGORIES h = (Inr (map (\<lambda>c. row c ! i) THREAT_CATEGORIES), h)"
    by (rule for_each_readonly)
  then show ?thesis
    by (simp add: column_def)
qed

lemma update_charts_reachable:
  assumes "prefix initial_heap h"
  shows "\<exists>hm gp. update_charts year a h =
           (Inr (hm, gp, column_stats (base_row year)),
            h @ map (\<lambda>c. adjusted_row a (base_row year c)) THREAT_CATEGORIES) \<and>
           create_heatmap year a h =
             (Inr hm, h @ map (\<lambda>c. adjusted_row a (base_row year c)) THREAT_CATEGORIES) \<and>
           create_gap_analysis_chart year h = (Inr gp, h)"
proof -
  let ?h1 = "h @ map (\<lambda>c. adjusted_row a (base_row year c)) THREAT_CATEGORIES"
  have p1: "prefix initial_heap ?h1" using assms by (simp add: prefix_prefix)
  have s0: "\<forall>c \<in> set THREAT_CATEGORIES. stored_at (get_maturity_data year) h (base_row year) c"
    using assms by (simp add: stored_base_row)
  have s1: "\<forall>c \<in> set THREAT_CATEGORIES. stored_at (get_maturity_data year) ?h1 (base_row year) c"
    using p1 by (simp add: stored_base_row)
  show ?thesis
    by (simp add: update_charts_def bind_def ret_def Let_def
        create_heatmap_reachable [OF assms] create_gap_stored [OF s1] create_gap_stored [OF s0]
        column_stored [OF s1] column_stats_def)
qed

lemma grows_create_heatmap: "grows (create_heatmap year a)"
  unfolding create_heatmap_def Let_def
  by (intro grows_bind grows_for_each grows_heatmap_body grows_list_read grows_ret)

lemma grows_gap_body: "grows (gap_body data c)"
  unfolding gap_body_def Let_def
  by (intro grows_bind grows_dict_getitem grows_list_getitem grows_list_read grows_ret)

lemma grows_create_gap: "grows (create_gap_analysis_chart year)"
  unfolding create_gap_analysis_chart_def Let_def
  by (intro grows_bind grows_for_each grows_gap_body grows_ret)

lemma grows_create_radar: "grows (create_radar_chart category year)"
  unfolding create_radar_chart_def Let_def
  by (auto intro!: grows_bind grows_dict_getitem grows_list_getitem grows_list_read grows_ret)

lemma grows_column: "grows (column data i)"
  unfolding column_def
  by (intro grows_bind grows_for_each grows_dict_getitem grows_list_getitem)

lemma grows_update_charts: "grows (update_charts year a)"
  unfolding update_charts_def Let_def
  by (intro grows_bind grows_create_heatmap grows_create_gap grows_column grows_ret)

lemma run_call_prefix: "prefix h (run_call c h)"
  by (cases c)
     (simp_all add: update_radar_def growsD grows_create_heatmap grows_create_gap
        grows_create_radar grows_update_charts)

lemma run_calls_prefix: "prefix h (run_calls cs h)"
proof (induction cs arbitrary: h)
  case Nil
  show ?case by simp
next
  case (Cons c cs)
  have "prefix h (run_call c h)" by (rule run_call_prefix)
  also have "prefix (run_call c h) (run_calls cs (run_call c h))" by (rule Cons.IH)
  finally show ?case by simp
qed

lemma zip_tabulate: "zip cs (map f cs) = map (\<lambda>c. (c, f c)) cs"
  by (induction cs) auto

lemma adjustedMatrix_reachable:
  assumes "prefix initial_heap h"
  shows "adjustedMatrix year a h =
           Inr (map (\<lambda>c. (c, adjusted_row a (base_row year c))) THREAT_CATEGORIES)"
  by (simp add: adjustedMatrix_def create_heatmap_reachable [OF assms] zip_tabulate)

lemma column_stats_means: "column_stats (base_row year) = column_means (base_matrix year)"
  by (simp add: column_stats_def column_means_def base_matrix_def comp_def)

lemma summaryStatistics_reachable:
  assumes "prefix initial_heap h"
  shows "summaryStatistics year a h = Inr (column_means (base_matrix year))"
  using update_charts_reachable [OF assms, of year a]
  by (auto simp: summaryStatistics_def column_stats_means)

lemma map_of_tabulate:
  "c \<in> set cs \<Longrightarrow> map_of (map (\<lambda>c. (c, f c)) cs) c = Some (f c)"
  by (induction cs) auto

lemma map_of_tabulate_None:
  "c \<notin> set cs \<Longrightarrow> map_of (map (\<lambda>c. (c, f c)) cs) c = None"
  by (induction cs) auto

lemma protectionGap_reachable:
  assumes "prefix initial_heap h" and "c \<in> set THREAT_CATEGORIES"
  shows "protectionGap c year h =
           Some (py_sub (Some (base_row year c ! 0)) (np_mean (drop 1 (base_row year c))))"
proof -
  have s0: "\<forall>c \<in> set THREAT_CATEGORIES. stored_at (get_maturity_data year) h (base_row year) c"
    using assms(1) by (simp add: stored_base_row)
  show ?thesis
    using assms(2)
    by (simp add: protectionGap_def create_gap_stored [OF s0] zip_tabulate
        map_of_tabulate del: One_nat_def)
qed

lemma mean_protection:
  assumes "length row = 4"
  shows "py_sub (Some (row ! 0)) (np_mean (drop 1 row)) =
           Some (row ! 0 - (row ! 1 + row ! 2 + row ! 3) / 3)"
proof -
  obtain t k g s where r: "row = [t, k, g, s]" using row4 [OF assms] by blast
  show ?thesis unfolding r by (simp add: py_sub_def np_mean_def)
qed

lemma hover_cells_map2:
  assumes "length row = 4"
  shows "hover_cells c row =
           map2 (\<lambda>dim level. (c, dim, level, get_level_description level)) DIMENSIONS row"
proof -
  obtain t k g s where r: "row = [t, k, g, s]" using row4 [OF assms] by blast
  show ?thesis unfolding r
    by (simp add: hover_cells_def DIMENSIONS_def enumerate_eq_zip upt_rec)
qed

lemma supported_base_matrix:
  "year \<in> supported_years \<Longrightarrow>
   (year = ''2025'' \<and> base_matrix year = LITERAL_2025) \<or>
   (year = ''2026'' \<and> base_matrix year = LITERAL_2026) \<or>
   (year = ''2027'' \<and> base_matrix year = LITERAL_2027)"
  by (auto simp: supported_years_def base_matrix_2025 base_matrix_2026 base_matrix_2027)

lemma radar_unknown_category:
  assumes "category \<notin> set THREAT_CATEGORIES"
  shows "create_radar_chart category year h = (Inr EmptyFigure, h)"
proof -
  have "fst ` set (get_maturity_data year) = set THREAT_CATEGORIES"
    using data_keys [of year] by (metis set_map)
  then show ?thesis
    using assms by (simp add: create_radar_chart_def Let_def ret_def)
qed

lemma base_row_default:
  "year \<notin> supported_years \<Longrightarrow> base_row year c = base_row ''2025'' c"
  by (simp add: base_row_def supported_years_def get_maturity_data_def)

lemma less4_cases: "i < (4::nat) \<Longrightarrow> i = 0 \<or> i = 1 \<or> i = 2 \<or> i = 3"
  by arith

lemma adjusted_row_mono:
  assumes "length row = 4" and "\<forall>i < 4. 0 \<le> row ! i \<and> row ! i \<le> 4"
    and "0 \<le> a1" and "a1 \<le> a2" and "i < 4"
  shows "adjusted_row a1 row ! i \<le> adjusted_row a2 row ! i \<and> adjusted_row a2 row ! i \<le> 4"
proof -
  have b: "row ! 0 \<le> 4" "row ! 1 \<le> 4" "row ! 2 \<le> 4" "row ! 3 \<le> 4"
    using assms(2) by simp_all
  have a2: "0 \<le> a2" using assms(3,4) by simp
  have le: "real_of_int a1 \<le> real_of_int a2" using assms(4) by simp
  have f1: "adjusted_row a1 row =
      [row ! 0, row ! 1, min 4 (row ! 2 + of_int a1 * 0.5), min 4 (row ! 3 + of_int a1 * 0.3)]"
    using assms(1,3) b(3,4) by (rule adjusted_row_formula)
  have f2: "adjusted_row a2 row =
      [row ! 0, row ! 1, min 4 (row ! 2 + of_int a2 * 0.5), min 4 (row ! 3 + of_int a2 * 0.3)]"
    using assms(1) a2 b(3,4) by (rule adjusted_row_formula)
  from less4_cases [OF assms(5)] show ?thesis
    unfolding f1 f2 using b le by (auto simp: min_def)
qed

lemma score_of_tabulate:
  assumes "c \<in> set cs" and "i < length (f c)"
  shows "score_of (Inr (map (\<lambda>c. (c, f c)) cs)) c i = Some (f c ! i)"
  using assms by (simp add: score_of_def map_of_tabulate)

lemma table_contents_prefix:
  assumes "prefix g h" and "\<forall>p \<in> set (map snd d). p < length g"
  shows "table_contents d h = table_contents d g"
  using assms by (auto simp: table_contents_def prefix_nth)

lemma table_contents_initial:
  "table_contents MATURITY_DATA_2025 initial_heap = LITERAL_2025"
  "table_contents MATURITY_DATA_2026 initial_heap = LITERAL_2026"
  "table_contents MATURITY_DATA_2027 initial_heap = LITERAL_2027"
  by (simp_all add: table_contents_def MATURITY_DATA_2025_def MATURITY_DATA_2026_def
      MATURITY_DATA_2027_def alloc_dict_def LITERAL_2025_def LITERAL_2026_def
      LITERAL_2027_def initial_heap_def upt_rec)

lemma table_addresses:
  "\<forall>p \<in> set (map snd MATURITY_DATA_2025). p < length initial_heap"
  "\<forall>p \<in> set (map snd MATURITY_DATA_2026). p < length initial_heap"
  "\<forall>p \<in> set (map snd MATURITY_DATA_2027). p < length initial_heap"
  by (simp_all add: MATURITY_DATA_2025_def MATURITY_DATA_2026_def
      MATURITY_DATA_2027_def alloc_dict_def LITERAL_2025_def LITERAL_2026_def
      LITERAL_2027_def initial_heap_def upt_rec)

lemma adjustedMatrix_base_matrix:
  assumes "prefix initial_heap h"
  shows "adjustedMatrix year a h =
           Inr (map (\<lambda>cr. (fst cr, adjusted_row a (snd cr))) (base_matrix year))"
  by (simp add: adjustedMatrix_reachable [OF assms] base_matrix_def comp_def)

subsection \<open>The claims of the specification\<close>

text \<open>
  Claim C1, as the code has it. The claim asks for a typed error on a year outside
  \<open>{2025, 2026, 2027}\<close> and on a category outside the fixed four. The code raises nothing
  there: \<^verbatim>\<open>get_maturity_data\<close> ends in \<^verbatim>\<open>return MATURITY_DATA_2025\<close>, so for every year outside
  the supported set it hands out the 2025 table, the adjusted matrix of such a year is the
  adjusted matrix of 2025 (the 2025 literal itself at adjustment 0), and
  \<^verbatim>\<open>create_radar_chart\<close> answers a category that is not a key of the table with the empty
  figure, leaving the heap as it was.
\<close>

theorem out_of_domain_defaults:
  assumes "year \<notin> supported_years" and "category \<notin> set THREAT_CATEGORIES"
    and "prefix initial_heap h"
  shows "get_maturity_data year = MATURITY_DATA_2025 \<and>
         adjustedMatrix year a h = adjustedMatrix ''2025'' a h \<and>
         adjustedMatrix year 0 h = Inr LITERAL_2025 \<and>
         create_radar_chart category y h = (Inr EmptyFigure, h)"
proof -
  have 1: "get_maturity_data year = MATURITY_DATA_2025"
    using assms(1) by (simp add: get_maturity_data_def supported_years_def)
  have 2: "adjustedMatrix year a h = adjustedMatrix ''2025'' a h" for a
    using assms(1) by (simp add: adjustedMatrix_reachable [OF assms(3)] base_row_default)
  have "adjustedMatrix ''2025'' 0 h = Inr (base_matrix ''2025'')"
    by (simp add: adjustedMatrix_reachable [OF assms(3)] adjusted_row_zero base_matrix_def)
  then have 3: "adjustedMatrix year 0 h = Inr LITERAL_2025"
    using 2 [of 0] by (simp add: base_matrix_2025)
  show ?thesis
    using 1 2 3 radar_unknown_category [OF assms(2)] by simp
qed

theorem out_of_domain_defaults_witness:
  "''2099'' \<notin> supported_years \<and> ''Bias'' \<notin> set THREAT_CATEGORIES \<and>
   prefix initial_heap initial_heap \<and>
   get_maturity_data ''2099'' = MATURITY_DATA_2025 \<and>
   adjustedMatrix ''2099'' 3 initial_heap = adjustedMatrix ''2025'' 3 initial_heap \<and>
   adjustedMatrix ''2099'' 0 initial_heap = Inr LITERAL_2025 \<and>
   create_radar_chart ''Bias'' ''2026'' initial_heap = (Inr EmptyFigure, initial_heap)"
  using out_of_domain_defaults [of "''2099''" "''Bias''" initial_heap 3 "''2026''"]
  by (simp add: supported_years_def THREAT_CATEGORIES_def)

text \<open>
  The instance that claim C1 names: the adjusted matrix of year \<open>2099\<close> at adjustment 0 is
  no error but the 2025 table.
\<close>

theorem unknown_year_counterexample:
  "adjustedMatrix ''2099'' 0 initial_heap = Inr LITERAL_2025"
proof -
  have "adjustedMatrix ''2099'' 0 initial_heap = Inr (base_matrix ''2099'')"
    by (simp add: adjustedMatrix_reachable adjusted_row_zero base_matrix_def)
  also have "base_matrix ''2099'' = base_matrix ''2025''"
    by (simp add: base_matrix_def base_row_default supported_years_def)
  finally show ?thesis by (simp add: base_matrix_2025)
qed

text \<open>
  Claim C2. For every supported year and every adjustment from 0 to 4, the adjusted matrix is
  the base matrix of the year in which every row keeps its threat-maturity and
  technical-controls scores, has its governance score replaced by
  \<open>min 4.0 (base + adjustment * 0.5)\<close> and its stakeholder-protection score replaced by
  \<open>min 4.0 (base + adjustment * 0.3)\<close>.
\<close>

theorem adjusted_matrix_formula:
  assumes "year \<in> supported_years" and "0 \<le> a" and "a \<le> 4" and "prefix initial_heap h"
  shows "adjustedMatrix year a h =
           Inr (map (\<lambda>cr. (fst cr,
                  [snd cr ! 0, snd cr ! 1,
                   min 4.0 (snd cr ! 2 + of_int a * 0.5),
                   min 4.0 (snd cr ! 3 + of_int a * 0.3)]))
                (base_matrix year))"
proof -
  have "adjusted_row a (base_row year c) =
          [base_row year c ! 0, base_row year c ! 1,
           min 4 (base_row year c ! 2 + of_int a * 0.5),
           min 4 (base_row year c ! 3 + of_int a * 0.3)]"
    if "c \<in> set THREAT_CATEGORIES" for c
    using base_row_bounded [OF that, of year] assms(2)
    by (intro adjusted_row_formula) auto
  then show ?thesis
    by (simp add: adjustedMatrix_reachable [OF assms(4)] base_matrix_def comp_def)
qed

theorem adjusted_matrix_formula_witness:
  "''2026'' \<in> supported_years \<and> (0::int) \<le> 3 \<and> (3::int) \<le> 4 \<and>
   prefix initial_heap initial_heap \<and>
   adjustedMatrix ''2026'' 3 initial_heap =
     Inr [(''Prompt Injection'', [4, 3, 4, 1.9]),
          (''Autonomy Harms'', [4, 2.5, 4, 1.9]),
          (''Political Integrity'', [4, 2, 3, 1.9]),
          (''Privacy'', [4, 2.5, 4, 3.4])]"
  using adjusted_matrix_formula [of "''2026''" 3 initial_heap]
  by (simp add: supported_years_def base_matrix_2026 LITERAL_2026_def)

text \<open>
  Claim C3. For every supported year and every category, the protection gap is the
  threat-maturity score minus the mean of the three other scores of the row in the base
  matrix; the gap chart that \<^verbatim>\<open>update_charts\<close> returns is the one
  \<^verbatim>\<open>create_gap_analysis_chart\<close> computes from the base data, whatever the governance
  adjustment. For Political Integrity in 2025 the base row is \<open>[4.0, 1.0, 0.5, 0.5]\<close> and the
  gap is \<open>10 / 3\<close>, within a thousandth of 3.333.
\<close>

theorem protection_gap_from_base_matrix:
  assumes "year \<in> supported_years" and "c \<in> set THREAT_CATEGORIES"
    and "prefix initial_heap h"
  shows "protectionGap c year h =
           Some (Some (base_row year c ! 0 -
                       (base_row year c ! 1 + base_row year c ! 2 + base_row year c ! 3) / 3)) \<and>
         (case fst (update_charts year a h) of
            Inl e \<Rightarrow> Inl e | Inr res \<Rightarrow> Inr (fst (snd res))) =
           fst (create_gap_analysis_chart year h) \<and>
         base_row ''2025'' ''Political Integrity'' = [4.0, 1.0, 0.5, 0.5] \<and>
         protectionGap ''Political Integrity'' ''2025'' h = Some (Some (10 / 3)) \<and>
         \<bar>10 / 3 - 3.333\<bar> < (0.001 :: real)"
proof -
  have l4: "length (base_row y k) = 4" if "k \<in> set THREAT_CATEGORIES" for y k
    using base_row_bounded [OF that, of y] by simp
  have g: "protectionGap k y h =
           Some (Some (base_row y k ! 0 - (base_row y k ! 1 + base_row y k ! 2 + base_row y k ! 3) / 3))"
    if "k \<in> set THREAT_CATEGORIES" for y k
    by (simp only: protectionGap_reachable [OF assms(3) that] mean_protection [OF l4 [OF that]])
  have 1: "protectionGap c year h =
           Some (Some (base_row year c ! 0 -
                       (base_row year c ! 1 + base_row year c ! 2 + base_row year c ! 3) / 3))"
    using assms(2) by (rule g)
  have 2: "(case fst (update_charts year a h) of
            Inl e \<Rightarrow> Inl e | Inr res \<Rightarrow> Inr (fst (snd res))) =
           fst (create_gap_analysis_chart year h)"
    using update_charts_reachable [OF assms(3), of year a] by auto
  have pi: "''Political Integrity'' \<in> set THREAT_CATEGORIES"
    by (simp add: THREAT_CATEGORIES_def)
  have 3: "base_row ''2025'' ''Political Integrity'' = [4.0, 1.0, 0.5, 0.5]"
    using base_row_in_matrix [OF pi, of "''2025''"]
    by (simp add: base_matrix_2025 LITERAL_2025_def)
  have 4: "protectionGap ''Political Integrity'' ''2025'' h = Some (Some (10 / 3))"
    by (simp add: g [OF pi] 3)
  show ?thesis using 1 2 3 4 by simp
qed

theorem protection_gap_from_base_matrix_witness:
  "''2026'' \<in> supported_years \<and> ''Privacy'' \<in> set THREAT_CATEGORIES \<and>
   prefix initial_heap initial_heap \<and>
   protectionGap ''Privacy'' ''2026'' initial_heap = Some (Some 1.5) \<and>
   protectionGap ''Political Integrity'' ''2025'' initial_heap = Some (Some (10 / 3))"
proof -
  have pr: "''Privacy'' \<in> set THREAT_CATEGORIES"
    by (simp add: THREAT_CATEGORIES_def)
  have br: "base_row ''2026'' ''Privacy'' = [4, 2.5, 2.5, 2.5]"
    using base_row_in_matrix [OF pr, of "''2026''"]
    by (simp add: base_matrix_2026 LITERAL_2026_def)
  show ?thesis
    using protection_gap_from_base_matrix [of "''2026''" "''Privacy''" initial_heap 0] pr
    by (simp add: supported_years_def br)
qed

text \<open>
  Claim C4, as the code has it. The claim takes the column means over the adjusted matrix when
  an adjustment is supplied. \<^verbatim>\<open>update_charts\<close> is given the adjustment, yet it computes
  the statistics from \<^verbatim>\<open>get_maturity_data(year)\<close>: for every supported year and every
  adjustment the summary statistics are the column means of the base matrix, with
  \<open>overallGap = avgThreat - avgStakeholder\<close>; for 2025 they are 4.0, 0.875 and 3.125.
\<close>

theorem summary_statistics_of_base_matrix:
  assumes "year \<in> supported_years" and "prefix initial_heap h"
  shows "summaryStatistics year a h = Inr (column_means (base_matrix year)) \<and>
         overall_gap (column_means (base_matrix year)) =
           py_sub (avg_threat (column_means (base_matrix year)))
                  (avg_stake (column_means (base_matrix year))) \<and>
         avg_threat (column_means (base_matrix ''2025'')) = Some 4.0 \<and>
         avg_stake (column_means (base_matrix ''2025'')) = Some 0.875 \<and>
         overall_gap (column_means (base_matrix ''2025'')) = Some 3.125"
  by (simp add: summaryStatistics_reachable [OF assms(2)] base_matrix_2025)
     (simp add: column_means_def LITERAL_2025_def np_mean_def py_sub_def)

theorem summary_statistics_of_base_matrix_witness:
  "''2025'' \<in> supported_years \<and> prefix initial_heap initial_heap \<and>
   summaryStatistics ''2025'' 2 initial_heap =
     Inr \<lparr>avg_threat = Some 4, avg_tech = Some 1.875, avg_gov = Some 1.625,
          avg_stake = Some 0.875, overall_gap = Some 3.125\<rparr>"
  using summary_statistics_of_base_matrix [of "''2025''" initial_heap 2]
  by (simp add: supported_years_def base_matrix_2025 column_means_def LITERAL_2025_def
      np_mean_def py_sub_def)

text \<open>
  The instance against claim C4 as worded: for 2025 with adjustment 2 the summary reports a
  governance mean of 1.625 and a stakeholder mean of 0.875, where the column means of the
  adjusted matrix are 2.625 and 1.475.
\<close>

theorem summary_ignores_adjustment_counterexample:
  "summaryStatistics ''2025'' 2 initial_heap =
     Inr \<lparr>avg_threat = Some 4, avg_tech = Some 1.875, avg_gov = Some 1.625,
          avg_stake = Some 0.875, overall_gap = Some 3.125\<rparr> \<and>
   map_sum id column_means (adjustedMatrix ''2025'' 2 initial_heap) =
     Inr \<lparr>avg_threat = Some 4, avg_tech = Some 1.875, avg_gov = Some 2.625,
          avg_stake = Some 1.475, overall_gap = Some 2.525\<rparr>"
proof -
  have a: "adjustedMatrix ''2025'' 2 initial_heap =
           Inr [(''Prompt Injection'', [4, 2.5, 3, 1.1]),
                (''Autonomy Harms'', [4, 2, 3, 1.1]),
                (''Political Integrity'', [4, 1, 1.5, 1.1]),
                (''Privacy'', [4, 2, 3, 2.6])]"
    by (simp add: adjustedMatrix_base_matrix base_matrix_2025 LITERAL_2025_def adjusted_row_def)
  have s: "summaryStatistics ''2025'' 2 initial_heap = Inr (column_means LITERAL_2025)"
    by (simp add: summaryStatistics_reachable base_matrix_2025)
  show ?thesis
    unfolding a s by (simp add: column_means_def LITERAL_2025_def np_mean_def py_sub_def)
qed

text \<open>
  Claim C5. For every score from 0 to 4, \<^verbatim>\<open>get_level_description\<close> returns one of the five
  labels, and each label is returned on its band and nowhere else: Non-existent on
  \<open>[0, 0.5)\<close>, Initial/Ad-hoc on \<open>[0.5, 1.5)\<close>, Developing on \<open>[1.5, 2.5)\<close>, Defined on
  \<open>[2.5, 3.5)\<close>, Managed/Mature on \<open>[3.5, 4.0]\<close>; the boundary values 0.5, 1.5, 2.5 and 3.5
  belong to the upper band.
\<close>

theorem classify_bands:
  assumes "0 \<le> s" and "s \<le> 4"
  shows "(get_level_description s = ''Non-existent'' \<longleftrightarrow> 0 \<le> s \<and> s < 0.5) \<and>
         (get_level_description s = ''Initial/Ad-hoc'' \<longleftrightarrow> 0.5 \<le> s \<and> s < 1.5) \<and>
         (get_level_description s = ''Developing'' \<longleftrightarrow> 1.5 \<le> s \<and> s < 2.5) \<and>
         (get_level_description s = ''Defined'' \<longleftrightarrow> 2.5 \<le> s \<and> s < 3.5) \<and>
         (get_level_description s = ''Managed/Mature'' \<longleftrightarrow> 3.5 \<le> s \<and> s \<le> 4.0) \<and>
         get_level_description s \<in>
           {''Non-existent'', ''Initial/Ad-hoc'', ''Developing'', ''Defined'', ''Managed/Mature''} \<and>
         get_level_description 0.5 = ''Initial/Ad-hoc'' \<and>
         get_level_description 1.5 = ''Developing'' \<and>
         get_level_description 2.5 = ''Defined'' \<and>
         get_level_description 3.5 = ''Managed/Mature''"
  using assms by (simp add: get_level_description_def)

theorem classify_bands_witness:
  "(0::real) \<le> 2.5 \<and> (2.5::real) \<le> 4 \<and> get_level_description 2.5 = ''Defined'' \<and>
   get_level_description 2.5 \<noteq> ''Developing''"
  using classify_bands [of "2.5"] by simp

text \<open>
  Claim C6. The colour of a gap is decided by the thresholds 2.5, 2.0 and 1.5, each an
  exclusive lower bound, tried in descending order: 3.333 falls in the highest bucket, 1.6 in
  the bucket above 1.5 and up to 2.0, and 1.0 in the lowest.
\<close>

theorem severity_color_thresholds:
  "(severity_color (Some g) = ''#d73027'' \<longleftrightarrow> g > 2.5) \<and>
   (severity_color (Some g) = ''#fc8d59'' \<longleftrightarrow> g > 2.0 \<and> g \<le> 2.5) \<and>
   (severity_color (Some g) = ''#fee08b'' \<longleftrightarrow> g > 1.5 \<and> g \<le> 2.0) \<and>
   (severity_color (Some g) = ''#d9ef8b'' \<longleftrightarrow> g \<le> 1.5) \<and>
   severity_color (Some 3.333) = ''#d73027'' \<and>
   severity_color (Some 1.6) = ''#fee08b'' \<and>
   severity_color (Some 1.0) = ''#d9ef8b''"
  by (simp add: severity_color_def py_gt_def)

theorem severity_color_thresholds_witness:
  "severity_color (Some 2.5) = ''#fc8d59'' \<and> severity_color (Some 2.0) = ''#fee08b'' \<and>
   severity_color (Some 1.5) = ''#d9ef8b'' \<and> severity_color (Some 2.6) = ''#d73027''"
  using severity_color_thresholds [of "2.5"] severity_color_thresholds [of "2.0"]
    severity_color_thresholds [of "1.5"] severity_color_thresholds [of "2.6"]
  by simp

text \<open>
  Claim C7. For every supported year, the adjusted matrix at adjustment 0 is the base matrix of
  that year, which is the content of the year's table as the module defines it.
\<close>

theorem adjustment_zero_identity:
  assumes "year \<in> supported_years" and "prefix initial_heap h"
  shows "adjustedMatrix year 0 h = Inr (base_matrix year) \<and>
         base_matrix year = table_contents (get_maturity_data year) initial_heap"
proof -
  have "table_contents (get_maturity_data y) initial_heap = base_matrix y" for y
  proof -
    have "base_matrix ''2025'' = table_contents (get_maturity_data ''2025'') initial_heap"
      unfolding base_matrix_2025
      by (simp add: table_contents_def get_maturity_data_def MATURITY_DATA_2025_def
          alloc_dict_def LITERAL_2025_def LITERAL_2026_def LITERAL_2027_def initial_heap_def
          upt_rec)
    moreover
    have "base_matrix ''2026'' = table_contents (get_maturity_data ''2026'') initial_heap"
      unfolding base_matrix_2026
      by (simp add: table_contents_def get_maturity_data_def MATURITY_DATA_2026_def
          alloc_dict_def LITERAL_2025_def LITERAL_2026_def LITERAL_2027_def initial_heap_def
          upt_rec)
    moreover
    have "base_matrix ''2027'' = table_contents (get_maturity_data ''2027'') initial_heap"
      unfolding base_matrix_2027
      by (simp add: table_contents_def get_maturity_data_def MATURITY_DATA_2027_def
          alloc_dict_def LITERAL_2025_def LITERAL_2026_def LITERAL_2027_def initial_heap_def
          upt_rec)
    moreover
    have "base_matrix y = base_matrix ''2025'' \<and> get_maturity_data y = get_maturity_data ''2025''
        \<or> base_matrix y = base_matrix ''2026'' \<and> get_maturity_data y = get_maturity_data ''2026''
        \<or> base_matrix y = base_matrix ''2027'' \<and> get_maturity_data y = get_maturity_data ''2027''"
      by (simp add: base_matrix_def base_row_def get_maturity_data_def)
    ultimately show ?thesis by auto
  qed
  then show ?thesis
    by (simp add: adjustedMatrix_reachable [OF assms(2)] adjusted_row_zero base_matrix_def)
qed

theorem adjustment_zero_identity_witness:
  "''2027'' \<in> supported_years \<and> prefix initial_heap initial_heap \<and>
   adjustedMatrix ''2027'' 0 initial_heap = Inr LITERAL_2027"
  using adjustment_zero_identity [of "''2027''" initial_heap]
  by (simp add: supported_years_def base_matrix_2027)

text \<open>
  Claim C8. For every supported year, every category, every column and all adjustments
  \<open>0 \<le> a1 \<le> a2 \<le> 4\<close>, the adjusted score under \<open>a1\<close> is at most the adjusted score under
  \<open>a2\<close>, and that one is at most 4.0; this holds for the governance and stakeholder columns
  (indices 2 and 3) in particular.
\<close>

theorem adjusted_scores_bounded_monotone:
  assumes "year \<in> supported_years" and "c \<in> set THREAT_CATEGORIES" and "i < 4"
    and "0 \<le> a1" and "a1 \<le> a2" and "a2 \<le> 4"
    and "prefix initial_heap h1" and "prefix initial_heap h2"
  shows "\<exists>s1 s2. score_of (adjustedMatrix year a1 h1) c i = Some s1 \<and>
                 score_of (adjustedMatrix year a2 h2) c i = Some s2 \<and>
                 s1 \<le> s2 \<and> s2 \<le> 4"
proof -
  have bnd: "length (base_row year c) = 4"
    "\<forall>i < 4. 0 \<le> base_row year c ! i \<and> base_row year c ! i \<le> 4"
    using base_row_bounded [OF assms(2), of year] by simp_all
  have l: "i < length (adjusted_row a (base_row year c))" for a
    using bnd(1) assms(3) by (simp add: length_adjusted_row)
  have s1: "score_of (adjustedMatrix year a1 h1) c i = Some (adjusted_row a1 (base_row year c) ! i)"
    unfolding adjustedMatrix_reachable [OF assms(7)]
    using assms(2) l by (rule score_of_tabulate)
  have s2: "score_of (adjustedMatrix year a2 h2) c i = Some (adjusted_row a2 (base_row year c) ! i)"
    unfolding adjustedMatrix_reachable [OF assms(8)]
    using assms(2) l by (rule score_of_tabulate)
  show ?thesis
    using s1 s2 adjusted_row_mono [OF bnd assms(4,5,3)] by simp
qed

theorem adjusted_scores_bounded_monotone_witness:
  "''2025'' \<in> supported_years \<and> ''Privacy'' \<in> set THREAT_CATEGORIES \<and> (3::nat) < 4 \<and>
   (0::int) \<le> 1 \<and> (1::int) \<le> 4 \<and> (4::int) \<le> 4 \<and> prefix initial_heap initial_heap \<and>
   (\<exists>s1 s2. score_of (adjustedMatrix ''2025'' 1 initial_heap) ''Privacy'' 3 = Some s1 \<and>
            score_of (adjustedMatrix ''2025'' 4 initial_heap) ''Privacy'' 3 = Some s2 \<and>
            s1 \<le> s2 \<and> s2 \<le> 4)"
  using adjusted_scores_bounded_monotone
    [of "''2025''" "''Privacy''" 3 1 4 initial_heap initial_heap]
  by (simp add: supported_years_def THREAT_CATEGORIES_def)

text \<open>
  Claim C9. After any sequence of calls of the heatmap, gap, radar and summary computations,
  with any arguments, started in the heap the module sets up, the three tables hold the values
  of their literals and the initial segment of the heap is untouched: the adjustment writes
  to a copy of each row only.
\<close>

theorem base_tables_never_mutated:
  "table_contents MATURITY_DATA_2025 (run_calls cs initial_heap) = LITERAL_2025 \<and>
   table_contents MATURITY_DATA_2026 (run_calls cs initial_heap) = LITERAL_2026 \<and>
   table_contents MATURITY_DATA_2027 (run_calls cs initial_heap) = LITERAL_2027 \<and>
   take (length initial_heap) (run_calls cs initial_heap) = initial_heap"
proof -
  have p: "prefix initial_heap (run_calls cs initial_heap)"
    by (rule run_calls_prefix)
  then have "take (length initial_heap) (run_calls cs initial_heap) = initial_heap"
    by (auto simp: prefix_def)
  then show ?thesis
    by (simp add: table_contents_prefix [OF p table_addresses(1)]
        table_contents_prefix [OF p table_addresses(2)]
        table_contents_prefix [OF p table_addresses(3)] table_contents_initial)
qed

theorem base_tables_never_mutated_witness:
  "table_contents MATURITY_DATA_2025
     (run_calls [UpdateCharts ''2025'' 4, Heatmap ''2026'' 2, GapChart ''2027'',
                 UpdateRadar ''Privacy'' ''2025'', RadarChart ''Bias'' ''2099'']
        initial_heap) = LITERAL_2025"
  using base_tables_never_mutated
    [of "[UpdateCharts ''2025'' 4, Heatmap ''2026'' 2, GapChart ''2027'',
          UpdateRadar ''Privacy'' ''2025'', RadarChart ''Bias'' ''2099'']"]
  by simp

text \<open>
  Claim C10. The label of every hover cell of the heatmap is \<^verbatim>\<open>get_level_description\<close> of
  the score in the same cell of the adjusted matrix \<^verbatim>\<open>z\<close>. For Prompt Injection in 2025 the
  base governance score 2.0 is labelled Developing, and with adjustment 2 the cell holds 3.0
  and is labelled Defined.
\<close>

theorem labels_follow_adjusted_scores:
  assumes "prefix initial_heap h"
  shows "\<exists>fig h'. create_heatmap year a h = (Inr fig, h') \<and>
           heatmap_customdata fig =
             map2 (\<lambda>c row. map2 (\<lambda>dim level. (c, dim, level, get_level_description level))
                                DIMENSIONS row)
                  (heatmap_y fig) (heatmap_z fig) \<and>
           adjustedMatrix year a h = Inr (zip (heatmap_y fig) (heatmap_z fig))"
proof -
  have "hover_cells c (adjusted_row a (base_row year c)) =
          map2 (\<lambda>dim level. (c, dim, level, get_level_description level)) DIMENSIONS
            (adjusted_row a (base_row year c))"
    if "c \<in> set THREAT_CATEGORIES" for c
    using base_row_bounded [OF that, of year]
    by (intro hover_cells_map2) (simp add: length_adjusted_row)
  then show ?thesis
    by (simp add: create_heatmap_reachable [OF assms] adjustedMatrix_def zip_tabulate)
qed

theorem labels_follow_adjusted_scores_witness:
  "prefix initial_heap initial_heap \<and>
   (\<exists>fig h'. create_heatmap ''2025'' 2 initial_heap = (Inr fig, h') \<and>
      heatmap_customdata fig ! 0 ! 2 =
        (''Prompt Injection'', ''Governance Enforcement'', 3, ''Defined'') \<and>
      heatmap_z fig ! 0 ! 2 = 3) \<and>
   base_row ''2025'' ''Prompt Injection'' ! 2 = 2 \<and>
   get_level_description 2 = ''Developing'' \<and> get_level_description 3 = ''Defined''"
proof -
  have br: "base_row ''2025'' ''Prompt Injection'' = [4, 2.5, 2, 0.5]"
    using base_row_in_matrix [of "''Prompt Injection''" "''2025''"]
    by (simp add: base_matrix_2025 LITERAL_2025_def THREAT_CATEGORIES_def)
  from labels_follow_adjusted_scores [of initial_heap "''2025''" 2]
  obtain fig h' where f: "create_heatmap ''2025'' 2 initial_heap = (Inr fig, h')"
    "heatmap_customdata fig =
       map2 (\<lambda>c row. map2 (\<lambda>dim level. (c, dim, level, get_level_description level))
                                DIMENSIONS row) (heatmap_y fig) (heatmap_z fig)"
    by auto
  have "heatmap_y fig = THREAT_CATEGORIES"
    "heatmap_z fig = map (\<lambda>c. adjusted_row 2 (base_row ''2025'' c)) THREAT_CATEGORIES"
    using f(1) by (auto simp: create_heatmap_reachable)
  then have "heatmap_z fig ! 0 = [4, 2.5, 3, 1.1]" "heatmap_y fig ! 0 = ''Prompt Injection''"
      "length (heatmap_z fig) = 4" "length (heatmap_y fig) = 4"
    by (simp_all add: THREAT_CATEGORIES_def br adjusted_row_def)
  then have "heatmap_customdata fig ! 0 ! 2 =
        (''Prompt Injection'', ''Governance Enforcement'', 3, ''Defined'') \<and>
      heatmap_z fig ! 0 ! 2 = 3"
    unfolding f(2) by (simp add: DIMENSIONS_def get_level_description_def)
  then show ?thesis
    using f(1) br by (auto simp: get_level_description_def)
qed

end
